theory Spec2Isabelle
  imports Main "HOL-Library.Word" "HOL-Library.Sublist"
begin

section \<open>Images as the imaging library holds them\<close>

text \<open>
  \<^verbatim>\<open>invert.py\<close> is one function, \<^verbatim>\<open>invert_image\<close>, over the Pillow imaging library.
  An image has a size and pixel data whose shape is fixed by the mode. The modes are
  those a PNG file decodes to: \<^verbatim>\<open>1\<close> (bilevel, a pixel is off or on), \<^verbatim>\<open>L\<close> (8-bit grey),
  \<^verbatim>\<open>P\<close> (8-bit indices into a palette of 256 colours), \<^verbatim>\<open>LA\<close> (grey with alpha),
  \<^verbatim>\<open>RGB\<close>, \<^verbatim>\<open>RGBA\<close> and \<^verbatim>\<open>I;16\<close> (16-bit grey). Samples are unsigned bytes, except the
  16-bit samples of \<^verbatim>\<open>I;16\<close>.
\<close>

type_synonym u8 = "8 word"

type_synonym u16 = "16 word"

datatype mode = Bilevel | L | P | LA | RGB | RGBA | I16

datatype pixel_data =
    PixBilevel "bool list"
  | PixL "u8 list"
  | PixP "u8 list" "u8 \<Rightarrow> u8 \<times> u8 \<times> u8"
  | PixLA "(u8 \<times> u8) list"
  | PixRGB "(u8 \<times> u8 \<times> u8) list"
  | PixRGBA "(u8 \<times> u8 \<times> u8 \<times> u8) list"
  | PixI16 "u16 list"

record image =
  im_size :: "nat \<times> nat"
  pixels :: pixel_data

definition mode_of :: "image \<Rightarrow> mode" where
  "mode_of img = (case pixels img of
      PixBilevel _ \<Rightarrow> Bilevel | PixL _ \<Rightarrow> L | PixP _ _ \<Rightarrow> P | PixLA _ \<Rightarrow> LA
    | PixRGB _ \<Rightarrow> RGB | PixRGBA _ \<Rightarrow> RGBA | PixI16 _ \<Rightarrow> I16)"

fun getmodebands :: "mode \<Rightarrow> nat" where
  "getmodebands Bilevel = 1"
| "getmodebands L = 1"
| "getmodebands P = 1"
| "getmodebands LA = 2"
| "getmodebands RGB = 3"
| "getmodebands RGBA = 4"
| "getmodebands I16 = 1"

fun mode_name :: "mode \<Rightarrow> string" where
  "mode_name Bilevel = ''1''"
| "mode_name L = ''L''"
| "mode_name P = ''P''"
| "mode_name LA = ''LA''"
| "mode_name RGB = ''RGB''"
| "mode_name RGBA = ''RGBA''"
| "mode_name I16 = ''I;16''"

definition npixels :: "image \<Rightarrow> nat" where
  "npixels img = (case pixels img of
      PixBilevel ps \<Rightarrow> length ps | PixL ps \<Rightarrow> length ps | PixP ps _ \<Rightarrow> length ps
    | PixLA ps \<Rightarrow> length ps | PixRGB ps \<Rightarrow> length ps | PixRGBA ps \<Rightarrow> length ps
    | PixI16 ps \<Rightarrow> length ps)"

subsection \<open>Exceptions\<close>

text \<open>
  A raised exception is a value: its class and the text \<^verbatim>\<open>str(e)\<close> gives.
  \<^verbatim>\<open>except FileNotFoundError\<close> selects on the class; \<^verbatim>\<open>except Exception\<close> takes
  every other class listed here.
\<close>

datatype exc_class =
    FileNotFoundError
  | NotADirectoryError
  | PermissionError
  | IsADirectoryError
  | UnidentifiedImageError
  | ValueError
  | NotImplementedError
  | OSError

datatype exn = Exn (cls: exc_class) (msg: string)

subsection \<open>Library operations on images\<close>

text \<open>
  \<^verbatim>\<open>Image.convert("RGB")\<close>. Grey is copied to the three colour bands and alpha is
  dropped; a bilevel pixel becomes black or white; a palette index becomes its palette
  colour; a 16-bit grey sample above 255 becomes 255 and is copied as it is otherwise.
\<close>

definition clip16 :: "u16 \<Rightarrow> u8" where
  "clip16 v = (if v \<le> 255 then ucast v else 255)"

definition convert_RGB :: "image \<Rightarrow> image" where
  "convert_RGB img = img\<lparr>pixels :=
     (case pixels img of
        PixBilevel ps \<Rightarrow> PixRGB (map (\<lambda>on. if on then (255, 255, 255) else (0, 0, 0)) ps)
      | PixL ps \<Rightarrow> PixRGB (map (\<lambda>v. (v, v, v)) ps)
      | PixP ps palette \<Rightarrow> PixRGB (map palette ps)
      | PixLA ps \<Rightarrow> PixRGB (map (\<lambda>(v, a). (v, v, v)) ps)
      | PixRGB ps \<Rightarrow> PixRGB ps
      | PixRGBA ps \<Rightarrow> PixRGB (map (\<lambda>(r, g, b, a). (r, g, b)) ps)
      | PixI16 ps \<Rightarrow> PixRGB (map (\<lambda>v. (clip16 v, clip16 v, clip16 v)) ps))\<rparr>"

text \<open>
  \<^verbatim>\<open>Image.split()\<close>: one single-band \<^verbatim>\<open>L\<close> image per band, each of the image's size;
  an image of a single band gives a copy of itself.
\<close>

definition band_image :: "image \<Rightarrow> u8 list \<Rightarrow> image" where
  "band_image img p = \<lparr>im_size = im_size img, pixels = PixL p\<rparr>"

definition split_bands :: "image \<Rightarrow> image list" where
  "split_bands img =
     (case pixels img of
        PixLA ps \<Rightarrow> map (band_image img) [map fst ps, map snd ps]
      | PixRGB ps \<Rightarrow> map (band_image img)
          [map (\<lambda>(r, g, b). r) ps, map (\<lambda>(r, g, b). g) ps, map (\<lambda>(r, g, b). b) ps]
      | PixRGBA ps \<Rightarrow> map (band_image img)
          [map (\<lambda>(r, g, b, a). r) ps, map (\<lambda>(r, g, b, a). g) ps,
           map (\<lambda>(r, g, b, a). b) ps, map (\<lambda>(r, g, b, a). a) ps]
      | _ \<Rightarrow> [img])"

text \<open>
  \<^verbatim>\<open>Image.merge(mode, bands)\<close>: the number of bands must be that of the mode, every band
  a single-band \<^verbatim>\<open>L\<close> image of the first band's size; the result takes the first band's
  size and one sample from each band per pixel. An \<^verbatim>\<open>L\<close> band does not match a target
  mode \<^verbatim>\<open>1\<close>, \<^verbatim>\<open>P\<close> or \<^verbatim>\<open>I;16\<close>. The inverter merges to \<^verbatim>\<open>RGB\<close> and \<^verbatim>\<open>RGBA\<close> only.
\<close>

definition plane :: "image \<Rightarrow> u8 list" where
  "plane img = (case pixels img of PixL ps \<Rightarrow> ps | _ \<Rightarrow> [])"

definition merge_planes :: "mode \<Rightarrow> u8 list list \<Rightarrow> pixel_data option" where
  "merge_planes m ps = (case m of
      L \<Rightarrow> Some (PixL (ps ! 0))
    | LA \<Rightarrow> Some (PixLA (zip (ps ! 0) (ps ! 1)))
    | RGB \<Rightarrow> Some (PixRGB (zip (ps ! 0) (zip (ps ! 1) (ps ! 2))))
    | RGBA \<Rightarrow> Some (PixRGBA (zip (ps ! 0) (zip (ps ! 1) (zip (ps ! 2) (ps ! 3)))))
    | _ \<Rightarrow> None)"

definition merge :: "mode \<Rightarrow> image list \<Rightarrow> exn + image" where
  "merge m bands =
     (if getmodebands m \<noteq> length bands then Inl (Exn ValueError ''wrong number of bands'')
      else if list_ex (\<lambda>b. mode_of b \<noteq> L) bands then Inl (Exn ValueError ''mode mismatch'')
      else if list_ex (\<lambda>b. im_size b \<noteq> im_size (hd bands)) bands
        then Inl (Exn ValueError ''size mismatch'')
      else (case merge_planes m (map plane bands) of
        None \<Rightarrow> Inl (Exn ValueError ''images do not match'')
      | Some px \<Rightarrow> Inr \<lparr>im_size = im_size (hd bands), pixels = px\<rparr>))"

text \<open>
  \<^verbatim>\<open>Image.point(lut)\<close> on a byte image: the table holds 256 entries per band, and band
  \<open>k\<close> of a pixel with sample \<open>v\<close> becomes entry \<open>256 * k + v\<close>. A bilevel pixel is
  stored as 0 or 255; a palette image has its indices mapped; a 16-bit image is refused.
\<close>

definition point :: "u8 list \<Rightarrow> image \<Rightarrow> exn + image" where
  "point lut img =
     (if mode_of img = I16 then Inl (Exn ValueError ''image has wrong mode'')
      else if length lut \<noteq> 256 * getmodebands (mode_of img)
        then Inl (Exn ValueError ''wrong number of lut entries'')
      else Inr (img\<lparr>pixels :=
        (case pixels img of
           PixBilevel ps \<Rightarrow>
             PixBilevel (map (\<lambda>on. lut ! (if on then 255 else 0) \<noteq> 0) ps)
         | PixL ps \<Rightarrow> PixL (map (\<lambda>v. lut ! unat v) ps)
         | PixP ps palette \<Rightarrow> PixP (map (\<lambda>v. lut ! unat v) ps) palette
         | PixLA ps \<Rightarrow> PixLA (map (\<lambda>(v, a). (lut ! unat v, lut ! (256 + unat a))) ps)
         | PixRGB ps \<Rightarrow> PixRGB (map (\<lambda>(r, g, b).
             (lut ! unat r, lut ! (256 + unat g), lut ! (512 + unat b))) ps)
         | PixRGBA ps \<Rightarrow> PixRGBA (map (\<lambda>(r, g, b, a).
             (lut ! unat r, lut ! (256 + unat g), lut ! (512 + unat b),
              lut ! (768 + unat a))) ps)
         | PixI16 ps \<Rightarrow> PixI16 ps)\<rparr>))"

text \<open>
  \<^verbatim>\<open>ImageOps.invert(image)\<close>: the table is \<^verbatim>\<open>list(range(255, -1, -1))\<close>. A bilevel image
  goes to \<^verbatim>\<open>point\<close> directly. Otherwise the table is repeated per band for an \<^verbatim>\<open>RGB\<close>
  image; only \<^verbatim>\<open>L\<close> and \<^verbatim>\<open>RGB\<close> images are accepted, a palette image and any other mode
  raise.
\<close>

definition invert_lut :: "u8 list" where
  "invert_lut = map of_nat (rev [0..<256])"

definition ImageOps_lut :: "image \<Rightarrow> u8 list \<Rightarrow> exn + image" where
  "ImageOps_lut img lut =
     (if mode_of img = P then Inl (Exn NotImplementedError ''mode P support coming soon'')
      else if mode_of img = L \<or> mode_of img = RGB then
        point (if mode_of img = RGB \<and> length lut = 256 then lut @ lut @ lut else lut) img
      else Inl (Exn OSError (''not supported for mode '' @ mode_name (mode_of img))))"

definition ImageOps_invert :: "image \<Rightarrow> exn + image" where
  "ImageOps_invert img =
     (if mode_of img = Bilevel then point invert_lut img else ImageOps_lut img invert_lut)"

section \<open>The inverter\<close>

subsection \<open>The transformation on the decoded image\<close>

text \<open>
  Lines 12-13 of \<^verbatim>\<open>invert_image\<close>: an image whose mode is neither \<^verbatim>\<open>RGB\<close> nor
  \<^verbatim>\<open>RGBA\<close> is converted to \<^verbatim>\<open>RGB\<close>.
\<close>

definition normalize_mode :: "image \<Rightarrow> image" where
  "normalize_mode img =
     (if mode_of img \<noteq> RGB \<and> mode_of img \<noteq> RGBA then convert_RGB img else img)"

text \<open>
  Lines 16-22: an \<^verbatim>\<open>RGBA\<close> image is split, its colour bands merged and inverted, and
  the inverted bands merged with the alpha band that was split off; any other image is
  inverted as it is. Unpacking the split into four names raises when there are not four
  bands.
\<close>

definition invert_colors :: "image \<Rightarrow> exn + image" where
  "invert_colors img =
     (if mode_of img = RGBA then
        (case split_bands img of
           [r, g, b, a] \<Rightarrow>
             (case merge RGB [r, g, b] of
                Inl e \<Rightarrow> Inl e
              | Inr rgb \<Rightarrow>
                  (case ImageOps_invert rgb of
                     Inl e \<Rightarrow> Inl e
                   | Inr inverted_rgb \<Rightarrow> merge RGBA (split_bands inverted_rgb @ [a])))
         | _ \<Rightarrow> Inl (Exn ValueError ''wrong number of values to unpack''))
      else ImageOps_invert img)"

definition transform :: "image \<Rightarrow> exn + image" where
  "transform img = invert_colors (normalize_mode img)"

subsection \<open>Files, standard output and the process\<close>

text \<open>
  The file system gives what resolving a path meets. Nothing: every directory on the
  way is there and the last one has no such entry, and opening raises
  \<^verbatim>\<open>FileNotFoundError\<close>. Otherwise: a component on the way that is no directory
  (\<^verbatim>\<open>NotADirectoryError\<close>); a file or a directory on the way that the process may not
  access (\<^verbatim>\<open>PermissionError\<close>); a directory (\<^verbatim>\<open>IsADirectoryError\<close>); a file that is
  no image (\<^verbatim>\<open>UnidentifiedImageError\<close>); a file with the header of an image whose pixel
  data cannot be read, with the exception reading raises; a picture, which decodes to
  its image.

  Writing is described by its outcome: \<open>write_fault\<close> gives the exception with which
  the operating system or the encoder refuses to write this image to this path
  (a missing directory, no permission, a full disk, an unknown extension), if any.
  On failure the files are kept as they were, which is what a refusal before the output
  is opened leaves; what a write interrupted later leaves at the output path is not
  followed.

  Standard output is the list of lines printed so far.
\<close>

datatype node =
    Picture image
  | Unloadable exn
  | Garbage
  | NoAccess
  | NotADir
  | Directory

record world =
  fs :: "string \<rightharpoonup> node"
  write_fault :: "image \<Rightarrow> string \<Rightarrow> exn option"
  cwd :: string
  stdout :: "string list"

text \<open>Python's \<^verbatim>\<open>repr\<close> of a path that needs no escapes: the text in single quotes.\<close>

definition py_repr :: "string \<Rightarrow> string" where
  "py_repr s = [CHR 0x27] @ s @ [CHR 0x27]"

text \<open>
  \<^verbatim>\<open>Image.open\<close> reads the header only and gives an image file. Its pixels are read
  by the first operation that needs them, which is the first operation of every branch
  of lines 12-22 (\<^verbatim>\<open>convert\<close>, \<^verbatim>\<open>split\<close>, \<^verbatim>\<open>point\<close>). Nothing is printed or written before
  that, so \<open>load\<close> is a step of its own, taken straight after opening.
\<close>

datatype image_file = Readable image | Damaged exn

definition Image_open :: "world \<Rightarrow> string \<Rightarrow> exn + image_file" where
  "Image_open w fp = (case fs w fp of
      None \<Rightarrow> Inl (Exn FileNotFoundError
        (''[Errno 2] No such file or directory: '' @ py_repr fp))
    | Some NotADir \<Rightarrow> Inl (Exn NotADirectoryError
        (''[Errno 20] Not a directory: '' @ py_repr fp))
    | Some NoAccess \<Rightarrow> Inl (Exn PermissionError
        (''[Errno 13] Permission denied: '' @ py_repr fp))
    | Some Directory \<Rightarrow> Inl (Exn IsADirectoryError
        (''[Errno 21] Is a directory: '' @ py_repr fp))
    | Some Garbage \<Rightarrow> Inl (Exn UnidentifiedImageError
        (''cannot identify image file '' @ py_repr fp))
    | Some (Unloadable e) \<Rightarrow> Inr (Damaged e)
    | Some (Picture img) \<Rightarrow> Inr (Readable img))"

fun load :: "image_file \<Rightarrow> exn + image" where
  "load (Readable img) = Inr img"
| "load (Damaged e) = Inl e"

definition save :: "image \<Rightarrow> string \<Rightarrow> world \<Rightarrow> exn + world" where
  "save img fp w = (case write_fault w img fp of
      Some e \<Rightarrow> Inl e
    | None \<Rightarrow> Inr (w\<lparr>fs := (fs w)(fp \<mapsto> Picture img)\<rparr>))"

definition print :: "string \<Rightarrow> world \<Rightarrow> world" where
  "print s w = w\<lparr>stdout := stdout w @ [s]\<rparr>"

text \<open>
  How a call ends: it returns, or \<^verbatim>\<open>sys.exit(n)\<close> ends the process with status \<open>n\<close>.
  A script whose \<^verbatim>\<open>main\<close> returns ends with status 0.
\<close>

datatype outcome = Returned | Exited int

fun exit_status :: "outcome \<Rightarrow> int" where
  "exit_status Returned = 0"
| "exit_status (Exited n) = n"

subsection \<open>\<^verbatim>\<open>invert_image\<close> and \<^verbatim>\<open>main\<close>\<close>

definition saved_message :: "string \<Rightarrow> string" where
  "saved_message output_path = ''Saved inverted image as: '' @ output_path"

definition not_found_message :: string where
  "not_found_message = ''Error: logo.png not found in current directory.''"

definition error_message :: "exn \<Rightarrow> string" where
  "error_message e = ''Error: '' @ msg e"

text \<open>The body of the \<^verbatim>\<open>try\<close> block, lines 9-25: the first exception raised ends it.\<close>

definition try_body :: "string \<Rightarrow> string \<Rightarrow> world \<Rightarrow> exn + world" where
  "try_body input_path output_path w =
     (case Image_open w input_path of
        Inl e \<Rightarrow> Inl e
      | Inr opened \<Rightarrow>
          (case load opened of
             Inl e \<Rightarrow> Inl e
           | Inr img \<Rightarrow>
               (case transform img of
                  Inl e \<Rightarrow> Inl e
                | Inr inverted \<Rightarrow>
                    (case save inverted output_path w of
                       Inl e \<Rightarrow> Inl e
                     | Inr w' \<Rightarrow> Inr (print (saved_message output_path) w')))))"

text \<open>
  The handlers, lines 27-32: \<^verbatim>\<open>FileNotFoundError\<close> first, then every other exception;
  both print one line and leave with status 1.
\<close>

definition invert_image :: "string \<Rightarrow> string \<Rightarrow> world \<Rightarrow> outcome \<times> world" where
  "invert_image input_path output_path w =
     (case try_body input_path output_path w of
        Inr w' \<Rightarrow> (Returned, w')
      | Inl e \<Rightarrow>
          if cls e = FileNotFoundError then (Exited 1, print not_found_message w)
          else (Exited 1, print (error_message e) w))"

text \<open>\<^verbatim>\<open>os.path.join\<close> of two components on a POSIX system.\<close>

definition os_path_join :: "string \<Rightarrow> string \<Rightarrow> string" where
  "os_path_join a b =
     (if b \<noteq> [] \<and> hd b = CHR ''/'' then b
      else if a = [] \<or> last a = CHR ''/'' then a @ b
      else a @ ''/'' @ b)"

definition main :: "world \<Rightarrow> outcome \<times> world" where
  "main w =
     (let input_file = ''logo.png'';
          output_file = ''logo_inverted.png'';
          input_path = os_path_join (cwd w) input_file;
          output_path = os_path_join (cwd w) output_file
      in invert_image input_path output_path w)"

text \<open>The script runs \<^verbatim>\<open>main\<close>; the process ends with the status of the call.\<close>

definition run_script :: "world \<Rightarrow> int \<times> world" where
  "run_script w = (case main w of (oc, w') \<Rightarrow> (exit_status oc, w'))"

subsection \<open>Reading samples off an image\<close>

text \<open>
  The colour samples of an image with colour bands, as the integers 0 to 255; the alpha
  samples of an image with an alpha band, as the bytes stored; the intensities of a
  single-band grey image, 8-bit or 16-bit, as integers.
\<close>

definition color_samples :: "image \<Rightarrow> (int \<times> int \<times> int) list option" where
  "color_samples img = (case pixels img of
      PixRGB ps \<Rightarrow> Some (map (\<lambda>(r, g, b). (uint r, uint g, uint b)) ps)
    | PixRGBA ps \<Rightarrow> Some (map (\<lambda>(r, g, b, a). (uint r, uint g, uint b)) ps)
    | _ \<Rightarrow> None)"

definition alpha_samples :: "image \<Rightarrow> u8 list option" where
  "alpha_samples img = (case pixels img of
      PixLA ps \<Rightarrow> Some (map (\<lambda>(v, a). a) ps)
    | PixRGBA ps \<Rightarrow> Some (map (\<lambda>(r, g, b, a). a) ps)
    | _ \<Rightarrow> None)"

definition grey_samples :: "image \<Rightarrow> int list option" where
  "grey_samples img = (case pixels img of
      PixL ps \<Rightarrow> Some (map uint ps)
    | PixI16 ps \<Rightarrow> Some (map uint ps)
    | _ \<Rightarrow> None)"

section \<open>Properties of the library operations\<close>

lemma length_invert_lut: "length invert_lut = 256"
  by (simp add: invert_lut_def)

lemma unat_u8_less: "unat (v :: u8) < 256"
  using unsigned_less [of v, where ?'a = nat] by simp

text \<open>Entry \<open>v\<close> of the inversion table is \<open>255 - v\<close>, and the subtraction never wraps.\<close>

lemma invert_lut_nth: "invert_lut ! unat (v :: u8) = 255 - v"
proof -
  have "invert_lut ! unat v = (of_nat (255 - unat v) :: u8)"
    using unat_u8_less [of v] by (simp add: invert_lut_def rev_nth)
  also have "\<dots> = of_nat 255 - of_nat (unat v)"
    using unat_u8_less [of v] by (simp add: of_nat_diff)
  finally show ?thesis by simp
qed

lemma uint_invert: "uint (255 - v :: u8) = 255 - uint v"
proof -
  have "uint v \<le> uint (255 :: u8)"
    using unsigned_less [of v, where ?'a = int] by simp
  then have "v \<le> 255" by (simp only: word_le_def)
  then have "uint (255 - v) = uint (255 :: u8) - uint v"
    by (rule uint_minus_simple_alt [THEN iffD1])
  then show ?thesis by simp
qed

lemma invert_lut3_nth:
  "(invert_lut @ invert_lut @ invert_lut) ! unat (v :: u8) = 255 - v"
  "(invert_lut @ invert_lut @ invert_lut) ! (256 + unat v) = 255 - v"
  "(invert_lut @ invert_lut @ invert_lut) ! (512 + unat v) = 255 - v"
  using unat_u8_less [of v]
  by (simp_all add: nth_append length_invert_lut invert_lut_nth)

lemma ImageOps_invert_RGB:
  "pixels img = PixRGB ps \<Longrightarrow>
   ImageOps_invert img =
     Inr (img\<lparr>pixels := PixRGB (map (\<lambda>(r, g, b). (255 - r, 255 - g, 255 - b)) ps)\<rparr>)"
  by (simp add: ImageOps_invert_def ImageOps_lut_def point_def mode_of_def
      length_invert_lut invert_lut3_nth)

lemma zip3_map:
  "zip (map f ps) (zip (map g ps) (map h ps)) = map (\<lambda>p. (f p, g p, h p)) ps"
  by (induction ps) simp_all

lemma zip4_map:
  "zip (map f ps) (zip (map g ps) (zip (map h ps) (map k ps))) =
   map (\<lambda>p. (f p, g p, h p, k p)) ps"
  by (induction ps) simp_all

section \<open>What the transformation computes, mode by mode\<close>

lemma invert_colors_RGBA:
  assumes "pixels img = PixRGBA ps"
  shows "invert_colors img =
     Inr (img\<lparr>pixels := PixRGBA (map (\<lambda>(r, g, b, a). (255 - r, 255 - g, 255 - b, a)) ps)\<rparr>)"
proof -
  let ?r = "band_image img (map (\<lambda>(r, g, b, a). r) ps)"
  let ?g = "band_image img (map (\<lambda>(r, g, b, a). g) ps)"
  let ?b = "band_image img (map (\<lambda>(r, g, b, a). b) ps)"
  let ?a = "band_image img (map (\<lambda>(r, g, b, a). a) ps)"
  let ?rgb = "\<lparr>im_size = im_size img, pixels = PixRGB (map (\<lambda>(r, g, b, a). (r, g, b)) ps)\<rparr>"
  let ?inv = "\<lparr>im_size = im_size img, pixels = PixRGB (map (\<lambda>(r, g, b, a).
      (255 - r, 255 - g, 255 - b)) ps)\<rparr>"
  have sp: "split_bands img = [?r, ?g, ?b, ?a]"
    using assms by (simp add: split_bands_def)
  have m1: "merge RGB [?r, ?g, ?b] = Inr ?rgb"
    by (simp add: merge_def band_image_def mode_of_def merge_planes_def plane_def zip3_map
        case_prod_beta)
  have "ImageOps_invert ?rgb =
      Inr (?rgb\<lparr>pixels := PixRGB (map (\<lambda>(r, g, b). (255 - r, 255 - g, 255 - b))
        (map (\<lambda>(r, g, b, a). (r, g, b)) ps))\<rparr>)"
    by (rule ImageOps_invert_RGB) simp
  then have iv: "ImageOps_invert ?rgb = Inr ?inv"
    by (simp add: case_prod_beta comp_def)
  have m2: "merge RGBA (split_bands ?inv @ [?a]) =
      Inr \<lparr>im_size = im_size img, pixels = PixRGBA (map (\<lambda>(r, g, b, a).
        (255 - r, 255 - g, 255 - b, a)) ps)\<rparr>"
    by (simp add: merge_def split_bands_def band_image_def mode_of_def merge_planes_def
        plane_def zip4_map case_prod_beta comp_def)
  have md: "mode_of img = RGBA" using assms by (simp add: mode_of_def)
  show ?thesis
    by (simp add: invert_colors_def md sp m1 iv m2)
qed

lemma invert_colors_RGB:
  "pixels img = PixRGB ps \<Longrightarrow> invert_colors img =
     Inr (img\<lparr>pixels := PixRGB (map (\<lambda>(r, g, b). (255 - r, 255 - g, 255 - b)) ps)\<rparr>)"
  by (simp add: invert_colors_def mode_of_def ImageOps_invert_RGB)

lemma transform_RGBA:
  "pixels img = PixRGBA ps \<Longrightarrow> transform img =
     Inr (img\<lparr>pixels := PixRGBA (map (\<lambda>(r, g, b, a). (255 - r, 255 - g, 255 - b, a)) ps)\<rparr>)"
  by (simp add: transform_def normalize_mode_def mode_of_def invert_colors_RGBA)

lemma transform_RGB:
  "pixels img = PixRGB ps \<Longrightarrow> transform img =
     Inr (img\<lparr>pixels := PixRGB (map (\<lambda>(r, g, b). (255 - r, 255 - g, 255 - b)) ps)\<rparr>)"
  by (simp add: transform_def normalize_mode_def mode_of_def invert_colors_RGB)

lemma mode_of_convert_RGB: "mode_of (convert_RGB img) = RGB"
  by (cases "pixels img") (simp_all add: convert_RGB_def mode_of_def)

lemma transform_converted:
  assumes "mode_of img \<noteq> RGB" "mode_of img \<noteq> RGBA"
    and "pixels (convert_RGB img) = PixRGB ps"
  shows "transform img =
     Inr (img\<lparr>pixels := PixRGB (map (\<lambda>(r, g, b). (255 - r, 255 - g, 255 - b)) ps)\<rparr>)"
proof -
  have "transform img = invert_colors (convert_RGB img)"
    using assms(1, 2) by (simp add: transform_def normalize_mode_def)
  also have "\<dots> = Inr ((convert_RGB img)\<lparr>pixels :=
      PixRGB (map (\<lambda>(r, g, b). (255 - r, 255 - g, 255 - b)) ps)\<rparr>)"
    by (rule invert_colors_RGB [OF assms(3)])
  also have "(convert_RGB img)\<lparr>pixels :=
      PixRGB (map (\<lambda>(r, g, b). (255 - r, 255 - g, 255 - b)) ps)\<rparr>
    = img\<lparr>pixels := PixRGB (map (\<lambda>(r, g, b). (255 - r, 255 - g, 255 - b)) ps)\<rparr>"
    by (simp add: convert_RGB_def)
  finally show ?thesis .
qed

lemma transform_L:
  "pixels img = PixL ps \<Longrightarrow> transform img =
     Inr (img\<lparr>pixels := PixRGB (map (\<lambda>v. (255 - v, 255 - v, 255 - v)) ps)\<rparr>)"
  using transform_converted [of img "map (\<lambda>v. (v, v, v)) ps"]
  by (simp add: mode_of_def convert_RGB_def comp_def)

lemma transform_LA:
  "pixels img = PixLA ps \<Longrightarrow> transform img =
     Inr (img\<lparr>pixels := PixRGB (map (\<lambda>(v, a). (255 - v, 255 - v, 255 - v)) ps)\<rparr>)"
  using transform_converted [of img "map (\<lambda>(v, a). (v, v, v)) ps"]
  by (simp add: mode_of_def convert_RGB_def comp_def case_prod_beta)

lemma transform_Bilevel:
  "pixels img = PixBilevel ps \<Longrightarrow> transform img =
     Inr (img\<lparr>pixels := PixRGB (map (\<lambda>on. if on then (0, 0, 0) else (255, 255, 255)) ps)\<rparr>)"
  using transform_converted
    [of img "map (\<lambda>on. if on then (255, 255, 255) else (0, 0, 0)) ps"]
  by (simp add: mode_of_def convert_RGB_def comp_def if_distrib cong: if_cong)

lemma transform_P:
  "pixels img = PixP ps palette \<Longrightarrow> transform img =
     Inr (img\<lparr>pixels := PixRGB (map ((\<lambda>(r, g, b). (255 - r, 255 - g, 255 - b)) \<circ> palette) ps)\<rparr>)"
  using transform_converted [of img "map palette ps"]
  by (simp add: mode_of_def convert_RGB_def)

lemma transform_I16:
  "pixels img = PixI16 ps \<Longrightarrow> transform img =
     Inr (img\<lparr>pixels := PixRGB
       (map (\<lambda>v. (255 - clip16 v, 255 - clip16 v, 255 - clip16 v)) ps)\<rparr>)"
  using transform_converted [of img "map (\<lambda>v. (clip16 v, clip16 v, clip16 v)) ps"]
  by (simp add: mode_of_def convert_RGB_def comp_def)

lemma transform_total: "\<exists>out. transform img = Inr out"
  by (cases "pixels img")
    (simp_all add: transform_Bilevel transform_L transform_P transform_LA transform_RGB
      transform_RGBA transform_I16)

lemma uint_clip16: "uint (clip16 v) = min (uint v) 255"
proof (cases "v \<le> 255")
  case True
  then have "uint v \<le> 255" by (simp add: word_le_def)
  then show ?thesis using True by (simp add: clip16_def unsigned_ucast_eq take_bit_int_eq_self)
next
  case False
  then have "\<not> uint v \<le> 255" by (simp add: word_le_def)
  then show ?thesis using False by (simp add: clip16_def)
qed

section \<open>Colour inversion\<close>

text \<open>
  C1. For every decoded image the transformation succeeds, and each red, green and blue
  sample of the output is 255 minus the corresponding sample of the image that reaches
  the inversion step, on the \<^verbatim>\<open>RGBA\<close> path (split, invert, merge) as on the path without
  alpha (inverted directly). The image that reaches the inversion step is the input
  itself when its mode is \<^verbatim>\<open>RGB\<close> or \<^verbatim>\<open>RGBA\<close>, and its conversion to \<^verbatim>\<open>RGB\<close> otherwise.
\<close>

theorem color_samples_inverted:
  "\<exists>out cs. transform img = Inr out
     \<and> mode_of out = mode_of (normalize_mode img)
     \<and> color_samples (normalize_mode img) = Some cs
     \<and> color_samples out = Some (map (\<lambda>(r, g, b). (255 - r, 255 - g, 255 - b)) cs)
     \<and> normalize_mode img =
         (if mode_of img = RGB \<or> mode_of img = RGBA then img else convert_RGB img)"
proof (cases "pixels img")
  case (PixBilevel ps)
  then show ?thesis
    by (simp add: transform_Bilevel normalize_mode_def mode_of_def convert_RGB_def
        color_samples_def comp_def if_distrib cong: if_cong)
next
  case (PixL ps)
  then show ?thesis
    by (simp add: transform_L normalize_mode_def mode_of_def convert_RGB_def
        color_samples_def comp_def uint_invert)
next
  case (PixP ps palette)
  then show ?thesis
    by (simp add: transform_P normalize_mode_def mode_of_def convert_RGB_def
        color_samples_def comp_def uint_invert case_prod_beta)
next
  case (PixLA ps)
  then show ?thesis
    by (simp add: transform_LA normalize_mode_def mode_of_def convert_RGB_def
        color_samples_def comp_def uint_invert case_prod_beta)
next
  case (PixRGB ps)
  then show ?thesis
    by (simp add: transform_RGB normalize_mode_def mode_of_def
        color_samples_def comp_def uint_invert case_prod_beta)
next
  case (PixRGBA ps)
  then show ?thesis
    by (simp add: transform_RGBA normalize_mode_def mode_of_def
        color_samples_def comp_def uint_invert case_prod_beta)
next
  case (PixI16 ps)
  then show ?thesis
    by (simp add: transform_I16 normalize_mode_def mode_of_def convert_RGB_def
        color_samples_def comp_def uint_invert)
qed

theorem color_samples_inverted_witness:
  "\<exists>out. transform \<lparr>im_size = (1, 1), pixels = PixRGB [(1, 2, 3)]\<rparr> = Inr out
     \<and> color_samples out = Some [(254, 253, 252)]"
  using color_samples_inverted [of "\<lparr>im_size = (1, 1), pixels = PixRGB [(1, 2, 3)]\<rparr>"]
  by (auto simp add: normalize_mode_def mode_of_def color_samples_def)

section \<open>The alpha channel\<close>

text \<open>
  C2, as amended. For every input image whose decoded mode is \<^verbatim>\<open>RGBA\<close>, the output is
  an \<^verbatim>\<open>RGBA\<close> image whose alpha samples are, byte for byte, the alpha samples of the
  input.
\<close>

theorem alpha_preserved_RGBA:
  "mode_of img = RGBA \<Longrightarrow>
   \<exists>out a. transform img = Inr out \<and> mode_of out = RGBA
     \<and> alpha_samples img = Some a \<and> alpha_samples out = Some a"
  by (cases "pixels img")
    (simp_all add: mode_of_def transform_RGBA alpha_samples_def comp_def case_prod_beta)

theorem alpha_preserved_RGBA_witness:
  "mode_of \<lparr>im_size = (1, 1), pixels = PixRGBA [(1, 2, 3, 77)]\<rparr> = RGBA
   \<and> (\<exists>out. transform \<lparr>im_size = (1, 1), pixels = PixRGBA [(1, 2, 3, 77)]\<rparr> = Inr out
        \<and> alpha_samples out = Some [77])"
proof -
  have m: "mode_of \<lparr>im_size = (1, 1), pixels = PixRGBA [(1, 2, 3, 77)]\<rparr> = RGBA"
    by (simp add: mode_of_def)
  show ?thesis
    using m alpha_preserved_RGBA [OF m] by (auto simp add: alpha_samples_def)
qed

text \<open>
  C2 as stated speaks of every input with an alpha channel. A grey image with alpha
  (mode \<^verbatim>\<open>LA\<close>) has one, its mode is neither \<^verbatim>\<open>RGB\<close> nor \<^verbatim>\<open>RGBA\<close>, so line 13 converts
  it to \<^verbatim>\<open>RGB\<close> and the output has no alpha samples at all.
\<close>

theorem alpha_dropped_LA:
  "alpha_samples \<lparr>im_size = (1, 1), pixels = PixLA [(10, 128)]\<rparr> = Some [128]
   \<and> transform \<lparr>im_size = (1, 1), pixels = PixLA [(10, 128)]\<rparr>
       = Inr \<lparr>im_size = (1, 1), pixels = PixRGB [(245, 245, 245)]\<rparr>
   \<and> alpha_samples \<lparr>im_size = (1, 1), pixels = PixRGB [(245, 245, 245)]\<rparr> = None"
  by (simp add: alpha_samples_def transform_LA)

section \<open>Mode normalisation\<close>

text \<open>
  C4, as amended. An input whose mode is neither \<^verbatim>\<open>RGB\<close> nor \<^verbatim>\<open>RGBA\<close> is converted to
  \<^verbatim>\<open>RGB\<close> and the conversion is what gets inverted; the output is an \<^verbatim>\<open>RGB\<close> image.
  For a single-band 8-bit grey input (mode \<^verbatim>\<open>L\<close>) each of the three output bands is 255
  minus the intensity.
\<close>

theorem grey_converted_then_inverted:
  "mode_of img \<noteq> RGB \<Longrightarrow> mode_of img \<noteq> RGBA \<Longrightarrow>
   transform img = ImageOps_invert (convert_RGB img)
   \<and> mode_of (convert_RGB img) = RGB
   \<and> (\<exists>out. transform img = Inr out \<and> mode_of out = RGB
        \<and> (\<forall>vs. mode_of img = L \<and> grey_samples img = Some vs \<longrightarrow>
             color_samples out = Some (map (\<lambda>v. (255 - v, 255 - v, 255 - v)) vs)))"
proof -
  assume m: "mode_of img \<noteq> RGB" "mode_of img \<noteq> RGBA"
  have c: "mode_of (convert_RGB img) = RGB"
    by (rule mode_of_convert_RGB)
  have t: "transform img = ImageOps_invert (convert_RGB img)"
    using m by (simp add: transform_def normalize_mode_def invert_colors_def c)
  have "\<exists>out. transform img = Inr out \<and> mode_of out = RGB
        \<and> (\<forall>vs. mode_of img = L \<and> grey_samples img = Some vs \<longrightarrow>
             color_samples out = Some (map (\<lambda>v. (255 - v, 255 - v, 255 - v)) vs))"
  proof (cases "pixels img")
    case (PixBilevel ps)
    then show ?thesis by (simp add: transform_Bilevel mode_of_def)
  next
    case (PixL ps)
    then show ?thesis
      by (simp add: transform_L mode_of_def color_samples_def grey_samples_def comp_def
          uint_invert)
  next
    case (PixP ps palette)
    then show ?thesis by (simp add: transform_P mode_of_def)
  next
    case (PixLA ps)
    then show ?thesis by (simp add: transform_LA mode_of_def)
  next
    case (PixRGB ps)
    then show ?thesis using m by (simp add: mode_of_def)
  next
    case (PixRGBA ps)
    then show ?thesis using m by (simp add: mode_of_def)
  next
    case (PixI16 ps)
    then show ?thesis by (simp add: transform_I16 mode_of_def)
  qed
  with c t show ?thesis by simp
qed

theorem grey_converted_then_inverted_witness:
  "mode_of \<lparr>im_size = (1, 2), pixels = PixL [7, 255]\<rparr> \<noteq> RGB
   \<and> mode_of \<lparr>im_size = (1, 2), pixels = PixL [7, 255]\<rparr> \<noteq> RGBA
   \<and> mode_of \<lparr>im_size = (1, 2), pixels = PixL [7, 255]\<rparr> = L
   \<and> grey_samples \<lparr>im_size = (1, 2), pixels = PixL [7, 255]\<rparr> = Some [7, 255]
   \<and> (\<exists>out. transform \<lparr>im_size = (1, 2), pixels = PixL [7, 255]\<rparr> = Inr out
        \<and> mode_of out = RGB
        \<and> color_samples out = Some [(248, 248, 248), (0, 0, 0)])"
proof -
  let ?img = "\<lparr>im_size = (1, 2), pixels = PixL [7, 255]\<rparr>"
  have m: "mode_of ?img \<noteq> RGB" "mode_of ?img \<noteq> RGBA"
    by (simp_all add: mode_of_def)
  have l: "mode_of ?img = L"
    by (simp add: mode_of_def)
  have g: "grey_samples ?img = Some [7, 255]"
    by (simp add: grey_samples_def)
  from grey_converted_then_inverted [OF m] obtain out where
    o: "transform ?img = Inr out" "mode_of out = RGB"
      "\<forall>vs. mode_of ?img = L \<and> grey_samples ?img = Some vs \<longrightarrow>
         color_samples out = Some (map (\<lambda>v. (255 - v, 255 - v, 255 - v)) vs)"
    by blast
  from o(3) l g have "color_samples out = Some [(248, 248, 248), (0, 0, 0)]"
    by simp
  with m l g o(1, 2) show ?thesis by blast
qed

text \<open>
  C4 as stated promises 255 minus the intensity for every single-channel grey input.
  A 16-bit grey image (mode \<^verbatim>\<open>I;16\<close>) is one: line 13 converts it, the conversion clips
  the sample 4660 to 255, and the output pixel is (0, 0, 0).
\<close>

theorem grey16_clipped:
  "mode_of \<lparr>im_size = (1, 1), pixels = PixI16 [4660]\<rparr> \<noteq> RGB
   \<and> mode_of \<lparr>im_size = (1, 1), pixels = PixI16 [4660]\<rparr> \<noteq> RGBA
   \<and> grey_samples \<lparr>im_size = (1, 1), pixels = PixI16 [4660]\<rparr> = Some [4660]
   \<and> transform \<lparr>im_size = (1, 1), pixels = PixI16 [4660]\<rparr>
       = Inr \<lparr>im_size = (1, 1), pixels = PixRGB [(0, 0, 0)]\<rparr>
   \<and> color_samples \<lparr>im_size = (1, 1), pixels = PixRGB [(0, 0, 0)]\<rparr> = Some [(0, 0, 0)]
   \<and> Some [(0, 0, 0)] \<noteq> Some (map (\<lambda>v. (255 - v, 255 - v, 255 - v)) [4660 :: int])"
  by (simp add: mode_of_def grey_samples_def transform_I16 clip16_def color_samples_def)

section \<open>Inverting twice\<close>

text \<open>
  C5. For an image in mode \<^verbatim>\<open>RGB\<close> or \<^verbatim>\<open>RGBA\<close>, transforming the result of the
  transformation gives back the image itself: same size, same colour samples, same
  alpha samples.
\<close>

theorem double_inversion_identity:
  "mode_of img = RGB \<or> mode_of img = RGBA \<Longrightarrow>
   \<exists>mid. transform img = Inr mid \<and> mode_of mid = mode_of img \<and> transform mid = Inr img"
proof (cases "pixels img")
  case (PixRGB ps)
  assume "mode_of img = RGB \<or> mode_of img = RGBA"
  have "transform (img\<lparr>pixels := PixRGB (map (\<lambda>(r, g, b). (255 - r, 255 - g, 255 - b)) ps)\<rparr>)
      = Inr img"
    using PixRGB by (simp add: transform_RGB comp_def case_prod_beta)
  then show ?thesis using PixRGB by (simp add: transform_RGB mode_of_def)
next
  case (PixRGBA ps)
  have "transform (img\<lparr>pixels :=
      PixRGBA (map (\<lambda>(r, g, b, a). (255 - r, 255 - g, 255 - b, a)) ps)\<rparr>) = Inr img"
    using PixRGBA by (simp add: transform_RGBA comp_def case_prod_beta)
  then show ?thesis using PixRGBA by (simp add: transform_RGBA mode_of_def)
qed (simp_all add: mode_of_def)

theorem double_inversion_identity_witness:
  "(mode_of \<lparr>im_size = (1, 1), pixels = PixRGBA [(10, 20, 30, 40)]\<rparr> = RGB
      \<or> mode_of \<lparr>im_size = (1, 1), pixels = PixRGBA [(10, 20, 30, 40)]\<rparr> = RGBA)
   \<and> transform \<lparr>im_size = (1, 1), pixels = PixRGBA [(10, 20, 30, 40)]\<rparr>
       = Inr \<lparr>im_size = (1, 1), pixels = PixRGBA [(245, 235, 225, 40)]\<rparr>
   \<and> transform \<lparr>im_size = (1, 1), pixels = PixRGBA [(245, 235, 225, 40)]\<rparr>
       = Inr \<lparr>im_size = (1, 1), pixels = PixRGBA [(10, 20, 30, 40)]\<rparr>"
proof -
  let ?img = "\<lparr>im_size = (1, 1), pixels = PixRGBA [(10, 20, 30, 40)]\<rparr>"
  have m: "mode_of ?img = RGB \<or> mode_of ?img = RGBA"
    by (simp add: mode_of_def)
  have t: "transform ?img = Inr \<lparr>im_size = (1, 1), pixels = PixRGBA [(245, 235, 225, 40)]\<rparr>"
    by (simp add: transform_RGBA)
  show ?thesis
    using m t double_inversion_identity [OF m] by auto
qed

section \<open>Failures and their reports\<close>

lemma invert_image_raises:
  "try_body input_path output_path w = Inl e \<Longrightarrow>
   invert_image input_path output_path w =
     (Exited 1, w\<lparr>stdout := stdout w @
        [if cls e = FileNotFoundError then not_found_message else error_message e]\<rparr>)"
  by (simp add: invert_image_def print_def)

lemma try_body_open_raises:
  "Image_open w input_path = Inl e \<Longrightarrow> try_body input_path output_path w = Inl e"
  by (simp add: try_body_def)

lemma try_body_picture:
  "fs w input_path = Some (Picture img) \<Longrightarrow> transform img = Inr inverted \<Longrightarrow>
   try_body input_path output_path w =
     (case write_fault w inverted output_path of
        Some e \<Rightarrow> Inl e
      | None \<Rightarrow> Inr (w\<lparr>fs := (fs w)(output_path \<mapsto> Picture inverted),
                       stdout := stdout w @ [saved_message output_path]\<rparr>))"
  by (simp add: try_body_def Image_open_def save_def print_def split: option.splits)

lemma try_body_returns:
  assumes "try_body input_path output_path w = Inr w'"
  shows "\<exists>img inverted. fs w input_path = Some (Picture img)
      \<and> transform img = Inr inverted
      \<and> write_fault w inverted output_path = None
      \<and> w' = w\<lparr>fs := (fs w)(output_path \<mapsto> Picture inverted),
                 stdout := stdout w @ [saved_message output_path]\<rparr>"
  using assms
  by (auto simp add: try_body_def Image_open_def save_def print_def
      split: option.splits node.splits sum.splits)

text \<open>
  C3, as amended. Whenever opening the input raises \<^verbatim>\<open>FileNotFoundError\<close>, which is what
  an input file that does not exist gives, \<^verbatim>\<open>invert_image\<close> prints the fixed line
  \<^verbatim>\<open>Error: logo.png not found in current directory.\<close> and the process ends with status 1;
  nothing else changes. So does the script when opening \<^verbatim>\<open>logo.png\<close> in the working
  directory raises \<^verbatim>\<open>FileNotFoundError\<close>.
\<close>

theorem missing_input_reported:
  "(Image_open w input_path = Inl e \<and> cls e = FileNotFoundError \<longrightarrow>
      invert_image input_path output_path w =
        (Exited 1, w\<lparr>stdout := stdout w @
           [''Error: logo.png not found in current directory.'']\<rparr>)
      \<and> exit_status (fst (invert_image input_path output_path w)) = 1)
   \<and> (Image_open w (os_path_join (cwd w) ''logo.png'') = Inl e'
       \<and> cls e' = FileNotFoundError \<longrightarrow>
      run_script w =
        (1, w\<lparr>stdout := stdout w @ [''Error: logo.png not found in current directory.'']\<rparr>))"
proof -
  have a: "invert_image ip op w =
        (Exited 1, w\<lparr>stdout := stdout w @
           [''Error: logo.png not found in current directory.'']\<rparr>)"
    if "Image_open w ip = Inl x" "cls x = FileNotFoundError" for ip op x
    using that
    by (simp add: invert_image_raises [OF try_body_open_raises] not_found_message_def)
  have b: "run_script w =
        (1, w\<lparr>stdout := stdout w @ [''Error: logo.png not found in current directory.'']\<rparr>)"
    if "Image_open w (os_path_join (cwd w) ''logo.png'') = Inl e'"
      "cls e' = FileNotFoundError"
    using a [OF that] by (simp add: run_script_def main_def)
  from a b show ?thesis by simp
qed

theorem missing_input_reported_witness:
  "Image_open \<lparr>fs = Map.empty, write_fault = (\<lambda>i p. None), cwd = ''/work'', stdout = []\<rparr>
      ''/work/logo.png''
     = Inl (Exn FileNotFoundError
         (''[Errno 2] No such file or directory: '' @ py_repr ''/work/logo.png''))
   \<and> cls (Exn FileNotFoundError
         (''[Errno 2] No such file or directory: '' @ py_repr ''/work/logo.png''))
     = FileNotFoundError
   \<and> os_path_join ''/work'' ''logo.png'' = ''/work/logo.png''
   \<and> invert_image ''/work/logo.png'' ''/work/logo_inverted.png''
        \<lparr>fs = Map.empty, write_fault = (\<lambda>i p. None), cwd = ''/work'', stdout = []\<rparr>
      = (Exited 1, \<lparr>fs = Map.empty, write_fault = (\<lambda>i p. None), cwd = ''/work'',
           stdout = [''Error: logo.png not found in current directory.'']\<rparr>)
   \<and> run_script \<lparr>fs = Map.empty, write_fault = (\<lambda>i p. None), cwd = ''/work'', stdout = []\<rparr>
      = (1, \<lparr>fs = Map.empty, write_fault = (\<lambda>i p. None), cwd = ''/work'',
           stdout = [''Error: logo.png not found in current directory.'']\<rparr>)"
proof -
  let ?w = "\<lparr>fs = Map.empty, write_fault = (\<lambda>i p. None), cwd = ''/work'', stdout = []\<rparr>"
  let ?e = "Exn FileNotFoundError
         (''[Errno 2] No such file or directory: '' @ py_repr ''/work/logo.png'')"
  have j: "os_path_join ''/work'' ''logo.png'' = ''/work/logo.png''"
    by (simp add: os_path_join_def)
  have h: "Image_open ?w ''/work/logo.png'' = Inl ?e"
    by (simp add: Image_open_def)
  have h': "Image_open ?w (os_path_join (cwd ?w) ''logo.png'') = Inl ?e"
    by (simp add: j h)
  have c: "cls ?e = FileNotFoundError" by simp
  from missing_input_reported
    [of ?w "''/work/logo.png''" ?e "''/work/logo_inverted.png''" ?e] h h' c
  have "invert_image ''/work/logo.png'' ''/work/logo_inverted.png'' ?w =
        (Exited 1, ?w\<lparr>stdout := stdout ?w @
           [''Error: logo.png not found in current directory.'']\<rparr>)
      \<and> run_script ?w =
        (1, ?w\<lparr>stdout := stdout ?w @ [''Error: logo.png not found in current directory.'']\<rparr>)"
    by blast
  with h j show ?thesis by simp
qed

text \<open>
  C3 as stated fails in three ways. An input file that exists and may not be read
  raises \<^verbatim>\<open>PermissionError\<close>, and the line printed is the description of the error, not
  the fixed message. A path under something that is no directory holds no input file
  and raises \<^verbatim>\<open>NotADirectoryError\<close>, reported by its description as well. And the fixed
  message is not kept for the missing input: with the input there and decoded, a
  \<^verbatim>\<open>FileNotFoundError\<close> from saving prints it too.
\<close>

theorem fixed_message_other_cases:
  "invert_image ''/work/logo.png'' ''/work/logo_inverted.png''
        \<lparr>fs = [''/work/logo.png'' \<mapsto> NoAccess], write_fault = (\<lambda>i p. None),
          cwd = ''/work'', stdout = []\<rparr>
      = (Exited 1, \<lparr>fs = [''/work/logo.png'' \<mapsto> NoAccess], write_fault = (\<lambda>i p. None),
           cwd = ''/work'',
           stdout = [''Error: [Errno 13] Permission denied: '' @ py_repr ''/work/logo.png'']\<rparr>)
   \<and> invert_image ''/file/logo.png'' ''/work/logo_inverted.png''
        \<lparr>fs = [''/file/logo.png'' \<mapsto> NotADir], write_fault = (\<lambda>i p. None),
          cwd = ''/work'', stdout = []\<rparr>
      = (Exited 1, \<lparr>fs = [''/file/logo.png'' \<mapsto> NotADir], write_fault = (\<lambda>i p. None),
           cwd = ''/work'',
           stdout = [''Error: [Errno 20] Not a directory: '' @ py_repr ''/file/logo.png'']\<rparr>)
   \<and> ''Error: [Errno 13] Permission denied: '' @ py_repr ''/work/logo.png''
        \<noteq> ''Error: logo.png not found in current directory.''
   \<and> ''Error: [Errno 20] Not a directory: '' @ py_repr ''/file/logo.png''
        \<noteq> ''Error: logo.png not found in current directory.''
   \<and> fs \<lparr>fs = [''/work/logo.png'' \<mapsto> Picture \<lparr>im_size = (1, 1), pixels = PixL [5]\<rparr>],
          write_fault = (\<lambda>i p. Some (Exn FileNotFoundError ''[Errno 2] No such file or directory'')),
          cwd = ''/work'', stdout = []\<rparr> ''/work/logo.png''
      = Some (Picture \<lparr>im_size = (1, 1), pixels = PixL [5]\<rparr>)
   \<and> stdout (snd (invert_image ''/work/logo.png'' ''/none/logo_inverted.png''
        \<lparr>fs = [''/work/logo.png'' \<mapsto> Picture \<lparr>im_size = (1, 1), pixels = PixL [5]\<rparr>],
          write_fault = (\<lambda>i p. Some (Exn FileNotFoundError ''[Errno 2] No such file or directory'')),
          cwd = ''/work'', stdout = []\<rparr>))
      = [''Error: logo.png not found in current directory.'']"
proof -
  let ?img = "\<lparr>im_size = (1, 1), pixels = PixL [5]\<rparr>"
  let ?e = "Exn FileNotFoundError ''[Errno 2] No such file or directory''"
  let ?w = "\<lparr>fs = [''/work/logo.png'' \<mapsto> Picture ?img],
          write_fault = (\<lambda>i p. Some ?e), cwd = ''/work'', stdout = []\<rparr>"
  have f: "fs ?w ''/work/logo.png'' = Some (Picture ?img)" by simp
  have p: "pixels ?img = PixL [5]" by simp
  have t: "try_body ''/work/logo.png'' ''/none/logo_inverted.png'' ?w = Inl ?e"
    by (simp only: try_body_picture [OF f transform_L [OF p]]) simp
  have s: "stdout (snd (invert_image ''/work/logo.png'' ''/none/logo_inverted.png'' ?w))
      = [''Error: logo.png not found in current directory.'']"
    by (simp only: invert_image_raises [OF t] not_found_message_def) simp
  have a: "invert_image ''/work/logo.png'' ''/work/logo_inverted.png''
        \<lparr>fs = [''/work/logo.png'' \<mapsto> NoAccess], write_fault = (\<lambda>i p. None),
          cwd = ''/work'', stdout = []\<rparr>
      = (Exited 1, \<lparr>fs = [''/work/logo.png'' \<mapsto> NoAccess], write_fault = (\<lambda>i p. None),
           cwd = ''/work'',
           stdout = [''Error: [Errno 13] Permission denied: '' @ py_repr ''/work/logo.png'']\<rparr>)"
    by (simp add: invert_image_def try_body_def Image_open_def print_def error_message_def)
  have b: "invert_image ''/file/logo.png'' ''/work/logo_inverted.png''
        \<lparr>fs = [''/file/logo.png'' \<mapsto> NotADir], write_fault = (\<lambda>i p. None),
          cwd = ''/work'', stdout = []\<rparr>
      = (Exited 1, \<lparr>fs = [''/file/logo.png'' \<mapsto> NotADir], write_fault = (\<lambda>i p. None),
           cwd = ''/work'',
           stdout = [''Error: [Errno 20] Not a directory: '' @ py_repr ''/file/logo.png'']\<rparr>)"
    by (simp add: invert_image_def try_body_def Image_open_def print_def error_message_def)
  have c: "''Error: [Errno 13] Permission denied: '' @ py_repr ''/work/logo.png''
        \<noteq> ''Error: logo.png not found in current directory.''"
    "''Error: [Errno 20] Not a directory: '' @ py_repr ''/file/logo.png''
        \<noteq> ''Error: logo.png not found in current directory.''"
    by simp_all
  from a b c f s show ?thesis by (intro conjI)
qed

text \<open>
  C8, as amended. Every failure whose exception is not \<^verbatim>\<open>FileNotFoundError\<close> (an input
  that is no image or whose pixels cannot be read, an input or output that may not be
  accessed, a full disk, an extension without an encoder) is reported by one line,
  \<^verbatim>\<open>Error: \<close> followed by the description of the exception, and the process ends with
  status 1: nothing is retried.
\<close>

theorem other_failures_described:
  "try_body input_path output_path w = Inl e \<Longrightarrow> cls e \<noteq> FileNotFoundError \<Longrightarrow>
   fst (invert_image input_path output_path w) = Exited 1
   \<and> stdout (snd (invert_image input_path output_path w))
       = stdout w @ [''Error: '' @ msg e]
   \<and> exit_status (fst (invert_image input_path output_path w)) = 1"
  by (simp add: invert_image_raises error_message_def)

theorem other_failures_described_witness:
  "try_body ''/work/logo.png'' ''/work/logo_inverted.png''
      \<lparr>fs = [''/work/logo.png'' \<mapsto> Unloadable (Exn OSError ''image file is truncated'')],
        write_fault = (\<lambda>i p. None), cwd = ''/work'', stdout = []\<rparr>
     = Inl (Exn OSError ''image file is truncated'')
   \<and> cls (Exn OSError ''image file is truncated'') \<noteq> FileNotFoundError
   \<and> fst (invert_image ''/work/logo.png'' ''/work/logo_inverted.png''
      \<lparr>fs = [''/work/logo.png'' \<mapsto> Unloadable (Exn OSError ''image file is truncated'')],
        write_fault = (\<lambda>i p. None), cwd = ''/work'', stdout = []\<rparr>) = Exited 1
   \<and> stdout (snd (invert_image ''/work/logo.png'' ''/work/logo_inverted.png''
      \<lparr>fs = [''/work/logo.png'' \<mapsto> Unloadable (Exn OSError ''image file is truncated'')],
        write_fault = (\<lambda>i p. None), cwd = ''/work'', stdout = []\<rparr>))
     = [''Error: image file is truncated'']"
proof -
  let ?e = "Exn OSError ''image file is truncated''"
  let ?w = "\<lparr>fs = [''/work/logo.png'' \<mapsto> Unloadable ?e],
        write_fault = (\<lambda>i p. None), cwd = ''/work'', stdout = []\<rparr>"
  have t: "try_body ''/work/logo.png'' ''/work/logo_inverted.png'' ?w = Inl ?e"
    by (simp add: try_body_def Image_open_def)
  have c: "cls ?e \<noteq> FileNotFoundError" by simp
  show ?thesis
    using t c other_failures_described [OF t c] by simp
qed

text \<open>
  C8 as stated covers every failure other than a missing input file. When the input
  exists and decodes and writing the output raises \<^verbatim>\<open>FileNotFoundError\<close>, the first
  handler takes it: the line printed is the fixed message about \<^verbatim>\<open>logo.png\<close>, not the
  description of the failure.
\<close>

theorem save_not_found_fixed_message:
  "try_body ''/work/logo.png'' ''/gone/logo_inverted.png''
      \<lparr>fs = [''/work/logo.png'' \<mapsto> Picture \<lparr>im_size = (2, 2), pixels = PixL [0, 9, 8, 7]\<rparr>],
        write_fault = (\<lambda>i p. Some (Exn FileNotFoundError
          (''[Errno 2] No such file or directory: '' @ py_repr p))),
        cwd = ''/work'', stdout = []\<rparr>
     = Inl (Exn FileNotFoundError
         (''[Errno 2] No such file or directory: '' @ py_repr ''/gone/logo_inverted.png''))
   \<and> stdout (snd (invert_image ''/work/logo.png'' ''/gone/logo_inverted.png''
      \<lparr>fs = [''/work/logo.png'' \<mapsto> Picture \<lparr>im_size = (2, 2), pixels = PixL [0, 9, 8, 7]\<rparr>],
        write_fault = (\<lambda>i p. Some (Exn FileNotFoundError
          (''[Errno 2] No such file or directory: '' @ py_repr p))),
        cwd = ''/work'', stdout = []\<rparr>))
     = [''Error: logo.png not found in current directory.'']
   \<and> ''Error: logo.png not found in current directory.''
     \<noteq> ''Error: '' @ ''[Errno 2] No such file or directory: ''
          @ py_repr ''/gone/logo_inverted.png''"
proof -
  let ?img = "\<lparr>im_size = (2, 2), pixels = PixL [0, 9, 8, 7]\<rparr>"
  let ?w = "\<lparr>fs = [''/work/logo.png'' \<mapsto> Picture ?img],
        write_fault = (\<lambda>i p. Some (Exn FileNotFoundError
          (''[Errno 2] No such file or directory: '' @ py_repr p))),
        cwd = ''/work'', stdout = []\<rparr>"
  have f: "fs ?w ''/work/logo.png'' = Some (Picture ?img)" by simp
  have p: "pixels ?img = PixL [0, 9, 8, 7]" by simp
  have t: "try_body ''/work/logo.png'' ''/gone/logo_inverted.png'' ?w
     = Inl (Exn FileNotFoundError
         (''[Errno 2] No such file or directory: '' @ py_repr ''/gone/logo_inverted.png''))"
    by (simp only: try_body_picture [OF f transform_L [OF p]]) simp
  have "''Error: logo.png not found in current directory.''
     \<noteq> ''Error: '' @ ''[Errno 2] No such file or directory: ''
          @ py_repr ''/gone/logo_inverted.png''"
    by simp
  then show ?thesis
    by (simp only: t invert_image_raises [OF t] not_found_message_def) simp
qed

text \<open>
  C10. A \<^verbatim>\<open>FileNotFoundError\<close> raised anywhere in the \<^verbatim>\<open>try\<close> block gives the fixed
  line \<^verbatim>\<open>Error: logo.png not found in current directory.\<close> and status 1. In particular
  this is what happens when the input exists and decodes, and saving the output raises
  \<^verbatim>\<open>FileNotFoundError\<close>.
\<close>

theorem file_not_found_anywhere:
  "(try_body input_path output_path w = Inl e \<and> cls e = FileNotFoundError \<longrightarrow>
      invert_image input_path output_path w =
        (Exited 1, w\<lparr>stdout := stdout w @
           [''Error: logo.png not found in current directory.'']\<rparr>))
   \<and> (fs w input_path = Some (Picture img) \<and> transform img = Inr inverted
       \<and> write_fault w inverted output_path = Some e \<and> cls e = FileNotFoundError \<longrightarrow>
      try_body input_path output_path w = Inl e
      \<and> invert_image input_path output_path w =
        (Exited 1, w\<lparr>stdout := stdout w @
           [''Error: logo.png not found in current directory.'']\<rparr>))"
proof -
  have a: "invert_image input_path output_path w =
        (Exited 1, w\<lparr>stdout := stdout w @
           [''Error: logo.png not found in current directory.'']\<rparr>)"
    if "try_body input_path output_path w = Inl e" "cls e = FileNotFoundError"
    using that by (simp add: invert_image_raises not_found_message_def)
  have b: "try_body input_path output_path w = Inl e"
    if "fs w input_path = Some (Picture img)" "transform img = Inr inverted"
      "write_fault w inverted output_path = Some e"
    using that by (simp add: try_body_picture)
  from a b show ?thesis by blast
qed

theorem file_not_found_anywhere_witness:
  "fs \<lparr>fs = [''a.png'' \<mapsto> Picture \<lparr>im_size = (2, 2), pixels = PixRGB
          [(0, 0, 0), (1, 1, 1), (2, 2, 2), (3, 3, 3)]\<rparr>],
        write_fault = (\<lambda>i p. Some (Exn FileNotFoundError ''no such directory'')),
        cwd = ''/work'', stdout = [''earlier line'']\<rparr> ''a.png''
     = Some (Picture \<lparr>im_size = (2, 2), pixels = PixRGB
          [(0, 0, 0), (1, 1, 1), (2, 2, 2), (3, 3, 3)]\<rparr>)
   \<and> try_body ''a.png'' ''missing/b.png''
      \<lparr>fs = [''a.png'' \<mapsto> Picture \<lparr>im_size = (2, 2), pixels = PixRGB
          [(0, 0, 0), (1, 1, 1), (2, 2, 2), (3, 3, 3)]\<rparr>],
        write_fault = (\<lambda>i p. Some (Exn FileNotFoundError ''no such directory'')),
        cwd = ''/work'', stdout = [''earlier line'']\<rparr>
     = Inl (Exn FileNotFoundError ''no such directory'')
   \<and> invert_image ''a.png'' ''missing/b.png''
      \<lparr>fs = [''a.png'' \<mapsto> Picture \<lparr>im_size = (2, 2), pixels = PixRGB
          [(0, 0, 0), (1, 1, 1), (2, 2, 2), (3, 3, 3)]\<rparr>],
        write_fault = (\<lambda>i p. Some (Exn FileNotFoundError ''no such directory'')),
        cwd = ''/work'', stdout = [''earlier line'']\<rparr>
     = (Exited 1, \<lparr>fs = [''a.png'' \<mapsto> Picture \<lparr>im_size = (2, 2), pixels = PixRGB
          [(0, 0, 0), (1, 1, 1), (2, 2, 2), (3, 3, 3)]\<rparr>],
        write_fault = (\<lambda>i p. Some (Exn FileNotFoundError ''no such directory'')),
        cwd = ''/work'',
        stdout = [''earlier line'', ''Error: logo.png not found in current directory.'']\<rparr>)"
proof -
  let ?img = "\<lparr>im_size = (2, 2), pixels = PixRGB
          [(0, 0, 0), (1, 1, 1), (2, 2, 2), (3, 3, 3)]\<rparr>"
  let ?e = "Exn FileNotFoundError ''no such directory''"
  let ?w = "\<lparr>fs = [''a.png'' \<mapsto> Picture ?img],
        write_fault = (\<lambda>i p. Some ?e),
        cwd = ''/work'', stdout = [''earlier line'']\<rparr>"
  let ?inv = "?img\<lparr>pixels := PixRGB (map (\<lambda>(r, g, b). (255 - r, 255 - g, 255 - b))
      [(0, 0, 0), (1, 1, 1), (2, 2, 2), (3, 3, 3)])\<rparr>"
  have f: "fs ?w ''a.png'' = Some (Picture ?img)" by simp
  have p: "pixels ?img = PixRGB [(0, 0, 0), (1, 1, 1), (2, 2, 2), (3, 3, 3)]" by simp
  have t: "transform ?img = Inr ?inv" by (rule transform_RGB [OF p])
  have wf: "write_fault ?w ?inv ''missing/b.png'' = Some ?e" by simp
  have c: "cls ?e = FileNotFoundError" by simp
  from file_not_found_anywhere [of "''a.png''" "''missing/b.png''" ?w ?e ?img ?inv] f t wf c
  have "try_body ''a.png'' ''missing/b.png'' ?w = Inl ?e
      \<and> invert_image ''a.png'' ''missing/b.png'' ?w =
        (Exited 1, ?w\<lparr>stdout := stdout ?w @
           [''Error: logo.png not found in current directory.'']\<rparr>)"
    by blast
  with f show ?thesis by simp
qed

section \<open>Success\<close>

text \<open>
  C9. When the \<^verbatim>\<open>try\<close> block completes, \<^verbatim>\<open>invert_image\<close> returns, one line has been
  printed, \<^verbatim>\<open>Saved inverted image as: \<close> followed by the output path, and the script ends
  with status 0.
\<close>

theorem success_reported:
  "(try_body input_path output_path w = Inr w' \<longrightarrow>
      invert_image input_path output_path w = (Returned, w')
      \<and> exit_status (fst (invert_image input_path output_path w)) = 0
      \<and> stdout w' = stdout w @ [''Saved inverted image as: '' @ output_path]
      \<and> sublist output_path (last (stdout w')))
   \<and> (try_body (os_path_join (cwd w) ''logo.png'')
         (os_path_join (cwd w) ''logo_inverted.png'') w = Inr w'' \<longrightarrow>
      run_script w = (0, w'')
      \<and> stdout w'' = stdout w @
          [''Saved inverted image as: '' @ os_path_join (cwd w) ''logo_inverted.png''])"
proof -
  have a: "invert_image ip op w = (Returned, v)
      \<and> exit_status (fst (invert_image ip op w)) = 0
      \<and> stdout v = stdout w @ [''Saved inverted image as: '' @ op]
      \<and> sublist op (last (stdout v))"
    if t: "try_body ip op w = Inr v" for ip op v
  proof -
    from try_body_returns [OF t] have s: "stdout v = stdout w @ [saved_message op]"
      by auto
    have "sublist op (saved_message op)"
      unfolding saved_message_def by (rule sublist_append_leftI)
    with s t show ?thesis
      by (simp add: invert_image_def saved_message_def)
  qed
  have b: "run_script w = (0, v)"
    if t: "try_body (os_path_join (cwd w) ''logo.png'')
         (os_path_join (cwd w) ''logo_inverted.png'') w = Inr v" for v
    using a [OF t] by (simp add: run_script_def main_def)
  from a b show ?thesis by blast
qed

theorem success_reported_witness:
  "try_body (os_path_join ''/work'' ''logo.png'') (os_path_join ''/work'' ''logo_inverted.png'')
      \<lparr>fs = [''/work/logo.png'' \<mapsto> Picture \<lparr>im_size = (2, 2), pixels = PixL [0, 9, 8, 7]\<rparr>],
        write_fault = (\<lambda>i p. None), cwd = ''/work'', stdout = []\<rparr>
    = Inr \<lparr>fs = [''/work/logo.png'' \<mapsto> Picture \<lparr>im_size = (2, 2), pixels = PixL [0, 9, 8, 7]\<rparr>,
              ''/work/logo_inverted.png'' \<mapsto> Picture \<lparr>im_size = (2, 2),
                 pixels = PixRGB [(255, 255, 255), (246, 246, 246), (247, 247, 247),
                   (248, 248, 248)]\<rparr>],
            write_fault = (\<lambda>i p. None), cwd = ''/work'',
            stdout = [''Saved inverted image as: /work/logo_inverted.png'']\<rparr>
   \<and> invert_image ''/work/logo.png'' ''/work/logo_inverted.png''
      \<lparr>fs = [''/work/logo.png'' \<mapsto> Picture \<lparr>im_size = (2, 2), pixels = PixL [0, 9, 8, 7]\<rparr>],
        write_fault = (\<lambda>i p. None), cwd = ''/work'', stdout = []\<rparr>
    = (Returned,
       \<lparr>fs = [''/work/logo.png'' \<mapsto> Picture \<lparr>im_size = (2, 2), pixels = PixL [0, 9, 8, 7]\<rparr>,
              ''/work/logo_inverted.png'' \<mapsto> Picture \<lparr>im_size = (2, 2),
                 pixels = PixRGB [(255, 255, 255), (246, 246, 246), (247, 247, 247),
                   (248, 248, 248)]\<rparr>],
            write_fault = (\<lambda>i p. None), cwd = ''/work'',
            stdout = [''Saved inverted image as: /work/logo_inverted.png'']\<rparr>)
   \<and> run_script
      \<lparr>fs = [''/work/logo.png'' \<mapsto> Picture \<lparr>im_size = (2, 2), pixels = PixL [0, 9, 8, 7]\<rparr>],
        write_fault = (\<lambda>i p. None), cwd = ''/work'', stdout = []\<rparr>
    = (0, \<lparr>fs = [''/work/logo.png'' \<mapsto> Picture \<lparr>im_size = (2, 2), pixels = PixL [0, 9, 8, 7]\<rparr>,
              ''/work/logo_inverted.png'' \<mapsto> Picture \<lparr>im_size = (2, 2),
                 pixels = PixRGB [(255, 255, 255), (246, 246, 246), (247, 247, 247),
                   (248, 248, 248)]\<rparr>],
            write_fault = (\<lambda>i p. None), cwd = ''/work'',
            stdout = [''Saved inverted image as: /work/logo_inverted.png'']\<rparr>)"
proof -
  let ?img = "\<lparr>im_size = (2, 2), pixels = PixL [0, 9, 8, 7]\<rparr>"
  let ?w = "\<lparr>fs = [''/work/logo.png'' \<mapsto> Picture ?img],
        write_fault = (\<lambda>i p. None), cwd = ''/work'', stdout = []\<rparr>"
  let ?w' = "\<lparr>fs = [''/work/logo.png'' \<mapsto> Picture ?img,
              ''/work/logo_inverted.png'' \<mapsto> Picture \<lparr>im_size = (2, 2),
                 pixels = PixRGB [(255, 255, 255), (246, 246, 246), (247, 247, 247),
                   (248, 248, 248)]\<rparr>],
            write_fault = (\<lambda>i p. None), cwd = ''/work'',
            stdout = [''Saved inverted image as: /work/logo_inverted.png'']\<rparr>"
  have j: "os_path_join ''/work'' ''logo.png'' = ''/work/logo.png''"
    "os_path_join ''/work'' ''logo_inverted.png'' = ''/work/logo_inverted.png''"
    by (simp_all add: os_path_join_def)
  have f: "fs ?w ''/work/logo.png'' = Some (Picture ?img)" by simp
  have p: "pixels ?img = PixL [0, 9, 8, 7]" by simp
  have t: "try_body (os_path_join (cwd ?w) ''logo.png'')
      (os_path_join (cwd ?w) ''logo_inverted.png'') ?w = Inr ?w'"
    by (simp add: j try_body_picture [OF f transform_L [OF p]] saved_message_def)
  from success_reported [of "os_path_join (cwd ?w) ''logo.png''"
      "os_path_join (cwd ?w) ''logo_inverted.png''" ?w ?w' ?w'] t
  have "invert_image (os_path_join (cwd ?w) ''logo.png'')
      (os_path_join (cwd ?w) ''logo_inverted.png'') ?w = (Returned, ?w')
    \<and> run_script ?w = (0, ?w')"
    by blast
  with t show ?thesis by (simp add: j)
qed

section \<open>Dimensions\<close>

text \<open>
  C7. The transformation returns an image of the size of its input, with as many
  pixels; after a run that succeeds, the picture at the output path has the size of the
  picture at the input path.
\<close>

theorem dimensions_preserved:
  "(\<exists>out. transform img = Inr out \<and> im_size out = im_size img \<and> npixels out = npixels img)
   \<and> (fs w input_path = Some (Picture img) \<and> try_body input_path output_path w = Inr w'
        \<longrightarrow> (\<exists>out. fs w' output_path = Some (Picture out) \<and> im_size out = im_size img))"
proof -
  have a: "\<exists>out. transform img = Inr out \<and> im_size out = im_size img
      \<and> npixels out = npixels img"
    by (cases "pixels img")
      (simp_all add: transform_Bilevel transform_L transform_P transform_LA transform_RGB
        transform_RGBA transform_I16 npixels_def)
  then obtain out where o: "transform img = Inr out" "im_size out = im_size img"
    by blast
  have "\<exists>out. fs w' output_path = Some (Picture out) \<and> im_size out = im_size img"
    if "fs w input_path = Some (Picture img)" "try_body input_path output_path w = Inr w'"
    using that o by (auto simp add: try_body_picture split: option.splits)
  with a show ?thesis by blast
qed

theorem dimensions_preserved_witness:
  "fs \<lparr>fs = [''in.png'' \<mapsto> Picture \<lparr>im_size = (2, 2), pixels = PixL [0, 9, 8, 7]\<rparr>],
       write_fault = (\<lambda>i p. None), cwd = ''/work'', stdout = []\<rparr> ''in.png''
     = Some (Picture \<lparr>im_size = (2, 2), pixels = PixL [0, 9, 8, 7]\<rparr>)
   \<and> (\<exists>w'. try_body ''in.png'' ''out.png''
        \<lparr>fs = [''in.png'' \<mapsto> Picture \<lparr>im_size = (2, 2), pixels = PixL [0, 9, 8, 7]\<rparr>],
          write_fault = (\<lambda>i p. None), cwd = ''/work'', stdout = []\<rparr> = Inr w'
        \<and> (\<exists>out. fs w' ''out.png'' = Some (Picture out) \<and> im_size out = (2, 2)))"
proof -
  let ?img = "\<lparr>im_size = (2, 2), pixels = PixL [0, 9, 8, 7]\<rparr>"
  let ?w = "\<lparr>fs = [''in.png'' \<mapsto> Picture ?img],
       write_fault = (\<lambda>i p. None), cwd = ''/work'', stdout = []\<rparr>"
  have f: "fs ?w ''in.png'' = Some (Picture ?img)" by simp
  have p: "pixels ?img = PixL [0, 9, 8, 7]" by simp
  have "\<exists>w'. try_body ''in.png'' ''out.png'' ?w = Inr w'"
    by (simp add: try_body_picture [OF f transform_L [OF p]])
  then obtain w' where t: "try_body ''in.png'' ''out.png'' ?w = Inr w'" ..
  from dimensions_preserved [of ?img ?w "''in.png''" "''out.png''" w'] f t
  have "\<exists>out. fs w' ''out.png'' = Some (Picture out) \<and> im_size out = im_size ?img"
    by blast
  with f t show ?thesis by simp
qed

section \<open>A concrete image\<close>

text \<open>
  C6. The 2 by 1 \<^verbatim>\<open>RGBA\<close> image with pixels (10, 20, 30, 255) and (0, 255, 128, 0) is
  transformed to the pixels (245, 235, 225, 255) and (255, 0, 127, 0); a run on a file
  holding it writes that image and reports the output path.
\<close>

theorem concrete_scenario:
  "transform \<lparr>im_size = (2, 1), pixels = PixRGBA [(10, 20, 30, 255), (0, 255, 128, 0)]\<rparr>
     = Inr \<lparr>im_size = (2, 1), pixels = PixRGBA [(245, 235, 225, 255), (255, 0, 127, 0)]\<rparr>
   \<and> invert_image ''/work/logo.png'' ''/work/logo_inverted.png''
        \<lparr>fs = [''/work/logo.png'' \<mapsto> Picture
                \<lparr>im_size = (2, 1), pixels = PixRGBA [(10, 20, 30, 255), (0, 255, 128, 0)]\<rparr>],
          write_fault = (\<lambda>i p. None), cwd = ''/work'', stdout = []\<rparr>
      = (Returned,
         \<lparr>fs = [''/work/logo.png'' \<mapsto> Picture
                \<lparr>im_size = (2, 1), pixels = PixRGBA [(10, 20, 30, 255), (0, 255, 128, 0)]\<rparr>,
               ''/work/logo_inverted.png'' \<mapsto> Picture
                \<lparr>im_size = (2, 1), pixels = PixRGBA [(245, 235, 225, 255), (255, 0, 127, 0)]\<rparr>],
          write_fault = (\<lambda>i p. None), cwd = ''/work'',
          stdout = [''Saved inverted image as: /work/logo_inverted.png'']\<rparr>)"
proof -
  let ?img = "\<lparr>im_size = (2, 1), pixels = PixRGBA [(10, 20, 30, 255), (0, 255, 128, 0)]\<rparr>"
  let ?w = "\<lparr>fs = [''/work/logo.png'' \<mapsto> Picture ?img],
          write_fault = (\<lambda>i p. None), cwd = ''/work'', stdout = []\<rparr>"
  have t: "transform ?img
     = Inr \<lparr>im_size = (2, 1), pixels = PixRGBA [(245, 235, 225, 255), (255, 0, 127, 0)]\<rparr>"
    by (simp add: transform_RGBA del: One_nat_def)
  have f: "fs ?w ''/work/logo.png'' = Some (Picture ?img)"
    by simp
  have "try_body ''/work/logo.png'' ''/work/logo_inverted.png'' ?w
     = Inr (?w\<lparr>fs := (fs ?w)(''/work/logo_inverted.png'' \<mapsto> Picture
              \<lparr>im_size = (2, 1), pixels = PixRGBA [(245, 235, 225, 255), (255, 0, 127, 0)]\<rparr>),
            stdout := stdout ?w @ [saved_message ''/work/logo_inverted.png'']\<rparr>)"
    by (simp only: try_body_picture [OF f t]) simp
  then have "invert_image ''/work/logo.png'' ''/work/logo_inverted.png'' ?w
     = (Returned, ?w\<lparr>fs := (fs ?w)(''/work/logo_inverted.png'' \<mapsto> Picture
              \<lparr>im_size = (2, 1), pixels = PixRGBA [(245, 235, 225, 255), (255, 0, 127, 0)]\<rparr>),
            stdout := stdout ?w @ [saved_message ''/work/logo_inverted.png'']\<rparr>)"
    by (simp only: invert_image_def sum.case)
  then show ?thesis
    by (simp add: t saved_message_def del: One_nat_def)
qed

end
